theory Spec2Isabelle
  imports Complex_Main "HOL-Library.Char_ord" "HOL-Library.List_Lexorder"
begin

section \<open>Transaction loader (src/data.py)\<close>

text \<open>
  A raw transaction row as \<open>load_raw\<close> hands it to \<open>clean_transactions\<close>. The invoice
  identifier is a string or a number, the customer identifier is the only nullable
  field, the quantity is an integer and may be negative, the unit price is a number.
  An invoice date is represented by the instant it denotes, counted in nanoseconds
  (the unit of a pandas timestamp); \<open>pd.to_datetime\<close> is the identity on that
  representation. Floating-point prices are represented by the real numbers they denote.
\<close>

datatype invoice_id = InvStr string | InvNum int

record txn_raw =
  InvoiceNo :: invoice_id
  StockCode :: string
  Quantity :: int
  InvoiceDate :: int
  UnitPrice :: real
  CustomerID :: "real option"

record txn = txn_raw +
  TotalPrice :: real

text \<open>Python's \<open>str\<close> on an integer: decimal digits, a leading minus sign when negative.\<close>

fun str_nat :: "nat \<Rightarrow> string" where
  "str_nat n = (if n < 10 then [char_of (48 + n)]
                else str_nat (n div 10) @ [char_of (48 + n mod 10)])"

declare str_nat.simps [simp del]

definition str_int :: "int \<Rightarrow> string" where
  "str_int i = (if i < 0 then CHR ''-'' # str_nat (nat (- i)) else str_nat (nat i))"

text \<open>\<open>df["InvoiceNo"].astype(str)\<close>, cell by cell.\<close>

fun astype_str :: "invoice_id \<Rightarrow> string" where
  "astype_str (InvStr s) = s"
| "astype_str (InvNum i) = str_int i"

text \<open>\<open>str.startswith\<close>.\<close>

definition startswith :: "string \<Rightarrow> string \<Rightarrow> bool" where
  "startswith s p = (take (length p) s = p)"

definition with_total :: "txn_raw \<Rightarrow> txn" where
  "with_total r = txn_raw.extend r \<lparr>TotalPrice = of_int (Quantity r) * UnitPrice r\<rparr>"

text \<open>
  \<open>clean_transactions\<close>, statement by statement: \<open>dropna\<close> on the customer
  identifier, the two boolean masks, the mask on the invoice string, the new column.
\<close>

definition clean_transactions :: "txn_raw list \<Rightarrow> txn list" where
  "clean_transactions df =
     (let df1 = filter (\<lambda>r. CustomerID r \<noteq> None) df;
          df2 = filter (\<lambda>r. Quantity r > 0) df1;
          df3 = filter (\<lambda>r. UnitPrice r > 0) df2;
          df4 = filter (\<lambda>r. \<not> startswith (astype_str (InvoiceNo r)) ''C'') df3
      in map with_total df4)"

section \<open>RFM feature builder (src/preprocessing.py)\<close>

text \<open>
  A data frame of customers: the list of its column names and its rows. The three
  label columns are optional; a cell of a label column may be null (\<open>None\<close>), and a
  row carries \<open>None\<close> for a column the frame does not have.
\<close>

record row =
  CustomerID :: real
  Recency :: int
  Frequency :: int
  Monetary :: real
  DBSCAN_Cluster :: "int option"
  Cluster :: "int option"
  Segment :: "string option"

record frame =
  columns :: "string list"
  rows :: "row list"

text \<open>One day, the value of \<open>pd.Timedelta(days=1)\<close> in nanoseconds.\<close>

definition day :: int where
  "day = 86400000000000"

text \<open>The rows of one group of \<open>df.groupby("CustomerID")\<close>.\<close>

definition group_rows :: "real \<Rightarrow> txn list \<Rightarrow> txn list" where
  "group_rows c df = filter (\<lambda>t. txn_raw.CustomerID t = Some c) df"

text \<open>
  The group keys: \<open>groupby\<close> drops null keys and sorts the remaining distinct keys.
\<close>

definition group_keys :: "txn list \<Rightarrow> real list" where
  "group_keys df = sort (remdups (map the (filter (\<lambda>k. k \<noteq> None) (map txn_raw.CustomerID df))))"

definition rfm_of_group :: "int \<Rightarrow> real \<Rightarrow> txn list \<Rightarrow> row" where
  "rfm_of_group snapshot_date c g =
     \<lparr>CustomerID = c,
      Recency = (snapshot_date - Max (set (map InvoiceDate g))) div day,
      Frequency = int (length (remdups (map InvoiceNo g))),
      Monetary = sum_list (map TotalPrice g),
      DBSCAN_Cluster = None, Cluster = None, Segment = None\<rparr>"

definition rfm_columns :: "string list" where
  "rfm_columns = [''CustomerID'', ''Recency'', ''Frequency'', ''Monetary'']"

text \<open>
  \<open>compute_rfm\<close>. The snapshot date is taken over the whole table; \<open>.days\<close> is the
  floor of the difference in days. An empty table has no group and gives no row.
\<close>

definition compute_rfm :: "txn list \<Rightarrow> frame" where
  "compute_rfm df =
     (if df = [] then \<lparr>columns = rfm_columns, rows = []\<rparr>
      else
        let snapshot_date = Max (set (map InvoiceDate df)) + day
        in \<lparr>columns = rfm_columns,
            rows = map (\<lambda>c. rfm_of_group snapshot_date c (group_rows c df)) (group_keys df)\<rparr>)"

section \<open>Errors and the artifact store (src/config.py)\<close>

text \<open>
  The Python exceptions that the modelled code can raise. \<open>FileNotFoundError\<close> carries
  the path that could not be opened, \<open>KeyError\<close> the missing column, \<open>ValueError\<close> and
  \<open>TypeError\<close> what was refused.
\<close>

datatype error =
  FileNotFoundError string | KeyError string | ValueError string | TypeError string

text \<open>Paths are written relative to the project root.\<close>

definition path_join :: "string \<Rightarrow> string \<Rightarrow> string" where
  "path_join d f = d @ ''/'' @ f"

definition RAW_DATA_PATH :: string where
  "RAW_DATA_PATH = ''data/raw/online_retail.csv''"

definition PROCESSED_DIR :: string where
  "PROCESSED_DIR = ''data/processed''"

definition MODELS_DIR :: string where
  "MODELS_DIR = ''models''"

definition SCALER_FILENAME :: string where
  "SCALER_FILENAME = ''scaler.joblib''"

definition KMEANS_FILENAME :: string where
  "KMEANS_FILENAME = ''kmeans.joblib''"

definition DBSCAN_FILENAME :: string where
  "DBSCAN_FILENAME = ''dbscan.joblib''"

definition RFM_FILENAME :: string where
  "RFM_FILENAME = ''rfm_with_segments.parquet''"

definition SEGMENT_MAP_FILENAME :: string where
  "SEGMENT_MAP_FILENAME = ''segment_map.joblib''"

text \<open>
  A fitted \<open>StandardScaler\<close>: its attributes \<open>mean_\<close> and \<open>scale_\<close>. The fitted clustering
  models are opaque to the repository; they are kept as their two parameters
  (\<open>n_clusters\<close> and \<open>random_state\<close>, \<open>eps\<close> and \<open>min_samples\<close>) and the labels they
  assigned.
\<close>

record scaler =
  scaler_mean :: "real list"
  scaler_scale :: "real list"

datatype kmeans = KMeans int int "int list"

datatype dbscan = DBSCAN real int "int list"

text \<open>
  The files the code reads and writes, one field per fixed path; \<open>None\<close> is a file
  that does not exist.
\<close>

record store =
  raw_csv :: "txn_raw list option"
  scaler_joblib :: "scaler option"
  kmeans_joblib :: "kmeans option"
  dbscan_joblib :: "dbscan option"
  segment_map_joblib :: "(int \<times> string) list option"
  rfm_parquet :: "frame option"

definition load_raw :: "store \<Rightarrow> error + txn_raw list" where
  "load_raw st = (case raw_csv st of
                    None \<Rightarrow> Inl (FileNotFoundError RAW_DATA_PATH)
                  | Some df \<Rightarrow> Inr df)"

definition load_clean :: "store \<Rightarrow> error + txn list" where
  "load_clean st = (case load_raw st of
                      Inl e \<Rightarrow> Inl e
                    | Inr df \<Rightarrow> Inr (clean_transactions df))"

section \<open>Feature scaler (src/preprocessing.py)\<close>

definition log1p :: "real \<Rightarrow> real" where
  "log1p x = ln (1 + x)"

text \<open>
  \<open>rfm[["Recency", "Frequency", "Monetary"]].apply(np.log1p)\<close>, one list per row. The
  table comes from \<open>compute_rfm\<close>; when it has no row its columns are not numeric and
  \<open>np.log1p\<close> raises \<open>TypeError\<close>.
\<close>

definition log_features :: "frame \<Rightarrow> error + real list list" where
  "log_features rfm =
     (if rows rfm = [] then Inl (TypeError ''np.log1p on a column that is not numeric'')
      else Inr (map (\<lambda>r. [log1p (of_int (Recency r)), log1p (of_int (Frequency r)),
                          log1p (Monetary r)])
                 (rows rfm)))"

definition column :: "nat \<Rightarrow> real list list \<Rightarrow> real list" where
  "column j X = map (\<lambda>r. r ! j) X"

definition mean :: "real list \<Rightarrow> real" where
  "mean xs = sum_list xs / of_nat (length xs)"

definition std :: "real list \<Rightarrow> real" where
  "std xs = sqrt (mean (map (\<lambda>x. (x - mean xs)\<^sup>2) xs))"

text \<open>
  \<open>StandardScaler\<close>: \<open>fit\<close> takes the mean and the population standard deviation of
  every feature over the batch (a zero deviation is replaced by one) and refuses an
  empty batch; \<open>transform\<close> subtracts the mean and divides by the scale, and refuses an
  empty batch and a row of another width; \<open>fit_transform\<close> is \<open>fit\<close> followed by
  \<open>transform\<close>.
\<close>

definition fit :: "real list list \<Rightarrow> error + scaler" where
  "fit X =
     (if X = [] then Inl (ValueError ''Found array with 0 sample(s)'')
      else Inr \<lparr>scaler_mean = map (\<lambda>j. mean (column j X)) [0..<length (hd X)],
                scaler_scale = map (\<lambda>j. let s = std (column j X) in if s = 0 then 1 else s)
                           [0..<length (hd X)]\<rparr>)"

definition transform :: "scaler \<Rightarrow> real list list \<Rightarrow> error + real list list" where
  "transform s X =
     (if X = [] then Inl (ValueError ''Found array with 0 sample(s)'')
      else if list_ex (\<lambda>r. length r \<noteq> length (scaler_mean s)) X
      then Inl (ValueError ''X has a different number of features'')
      else Inr (map (\<lambda>r. map (\<lambda>j. (r ! j - scaler_mean s ! j) / scaler_scale s ! j) [0..<length r]) X))"

definition fit_transform :: "real list list \<Rightarrow> error + real list list \<times> scaler" where
  "fit_transform X =
     (case fit X of
        Inl e \<Rightarrow> Inl e
      | Inr s \<Rightarrow> (case transform s X of Inl e \<Rightarrow> Inl e | Inr Y \<Rightarrow> Inr (Y, s)))"

definition prepare_for_clustering ::
  "frame \<Rightarrow> error + real list list \<times> real list list \<times> scaler" where
  "prepare_for_clustering rfm =
     (case log_features rfm of
        Inl e \<Rightarrow> Inl e
      | Inr rfm_log \<Rightarrow>
          (case fit_transform rfm_log of
             Inl e \<Rightarrow> Inl e
           | Inr (rfm_scaled, scaler) \<Rightarrow> Inr (rfm_log, rfm_scaled, scaler)))"

text \<open>
  Lines 15 and 16 of src/train_dbscan.py, the reuse path that the specification calls
  \<open>apply_existing_scaler\<close>: the logarithm, then \<open>transform\<close> of the loaded scaler.
\<close>

definition apply_existing_scaler :: "scaler \<Rightarrow> frame \<Rightarrow> error + real list list" where
  "apply_existing_scaler scaler rfm =
     (case log_features rfm of
        Inl e \<Rightarrow> Inl e
      | Inr rfm_log \<Rightarrow> transform scaler rfm_log)"

section \<open>Column assignment and the left join\<close>

definition add_column :: "string \<Rightarrow> string list \<Rightarrow> string list" where
  "add_column name cols = (if name \<in> set cols then cols else cols @ [name])"

text \<open>
  \<open>rfm[name] = labels\<close> for an array of labels: pandas raises \<open>ValueError\<close> when the
  array is not as long as the frame.
\<close>

definition set_Cluster :: "int list \<Rightarrow> frame \<Rightarrow> error + frame" where
  "set_Cluster labels rfm =
     (if length labels \<noteq> length (rows rfm)
      then Inl (ValueError ''Length of values does not match length of index'')
      else Inr \<lparr>columns = add_column ''Cluster'' (columns rfm),
                rows = map (\<lambda>(r, l). r\<lparr>Cluster := Some l\<rparr>) (zip (rows rfm) labels)\<rparr>)"

definition set_DBSCAN_Cluster :: "int list \<Rightarrow> frame \<Rightarrow> error + frame" where
  "set_DBSCAN_Cluster labels rfm =
     (if length labels \<noteq> length (rows rfm)
      then Inl (ValueError ''Length of values does not match length of index'')
      else Inr \<lparr>columns = add_column ''DBSCAN_Cluster'' (columns rfm),
                rows = map (\<lambda>(r, l). r\<lparr>DBSCAN_Cluster := Some l\<rparr>) (zip (rows rfm) labels)\<rparr>)"

text \<open>
  \<open>rfm.merge(existing[["CustomerID", "Cluster", "Segment"]], on="CustomerID", how="left")\<close>:
  the left rows in their order, each once per matching right row (in the right frame's
  order) with that row's two cells, or once with two null cells when no right row has
  its key.
\<close>

definition merge_row :: "row list \<Rightarrow> row \<Rightarrow> row list" where
  "merge_row right l =
     (case filter (\<lambda>r. CustomerID r = CustomerID l) right of
        [] \<Rightarrow> [l\<lparr>Cluster := None, Segment := None\<rparr>]
      | ms \<Rightarrow> map (\<lambda>r. l\<lparr>Cluster := Cluster r, Segment := Segment r\<rparr>) ms)"

definition merge_left :: "frame \<Rightarrow> frame \<Rightarrow> frame" where
  "merge_left rfm existing =
     \<lparr>columns = columns rfm @ [''Cluster'', ''Segment''],
      rows = concat (map (merge_row (rows existing)) (rows rfm))\<rparr>"

section \<open>Centroid trainer (src/train_kmeans.py)\<close>

definition DEFAULT_SEGMENT_MAP :: "(int \<times> string) list" where
  "DEFAULT_SEGMENT_MAP =
     [(0, ''High Value''), (1, ''Loyal''), (2, ''At Risk''), (3, ''Low Value'')]"

text \<open>
  \<open>rfm["Segment"] = rfm["Cluster"].map(DEFAULT_SEGMENT_MAP)\<close>: a cluster that is not
  a key of the dictionary is mapped to a null cell.
\<close>

definition set_Segment :: "frame \<Rightarrow> frame" where
  "set_Segment rfm =
     \<lparr>columns = add_column ''Segment'' (columns rfm),
      rows = map (\<lambda>r. r\<lparr>Segment := (case Cluster r of
                                          None \<Rightarrow> None
                                        | Some k \<Rightarrow> map_of DEFAULT_SEGMENT_MAP k)\<rparr>)
               (rows rfm)\<rparr>"

text \<open>
  \<open>train_and_save\<close> of the centroid trainer. The clustering algorithm is a black box,
  the parameter \<open>fit_predict\<close>: from the number of clusters, the seed and the scaled
  features it gives the labels, or fails. The function returns its result (the labeled
  frame, or the exception) and the store it leaves.
\<close>

definition kmeans_train_and_save ::
  "(int \<Rightarrow> int \<Rightarrow> real list list \<Rightarrow> error + int list) \<Rightarrow>
   int \<Rightarrow> int \<Rightarrow> bool \<Rightarrow> store \<Rightarrow> (error + frame) \<times> store" where
  "kmeans_train_and_save fit_predict n_clusters random_state save_rfm st =
     (case load_clean st of
        Inl e \<Rightarrow> (Inl e, st)
      | Inr df \<Rightarrow>
          let rfm = compute_rfm df
          in case prepare_for_clustering rfm of
               Inl e \<Rightarrow> (Inl e, st)
             | Inr (rfm_log, rfm_scaled, scaler) \<Rightarrow>
                 (case fit_predict n_clusters random_state rfm_scaled of
                    Inl e \<Rightarrow> (Inl e, st)
                  | Inr labels \<Rightarrow>
                      (case set_Cluster labels rfm of
                         Inl e \<Rightarrow> (Inl e, st)
                       | Inr rfm1 \<Rightarrow>
                           let rfm2 = set_Segment rfm1;
                               st1 = st\<lparr>scaler_joblib := Some scaler,
                                        kmeans_joblib :=
                                          Some (KMeans n_clusters random_state labels),
                                        segment_map_joblib := Some DEFAULT_SEGMENT_MAP\<rparr>;
                               st2 = (if save_rfm then st1\<lparr>rfm_parquet := Some rfm2\<rparr>
                                      else st1)
                           in (Inr rfm2, st2))))"

section \<open>Density trainer (src/train_dbscan.py)\<close>

text \<open>
  \<open>train_and_save\<close> of the density trainer, with the clustering algorithm as the
  parameter \<open>fit_predict\<close> (from the radius, the minimum count and the scaled features
  to the labels, or a failure). \<open>joblib.load\<close> of a file that does not exist raises
  \<open>FileNotFoundError\<close> with the path it was given.
\<close>

definition dbscan_train_and_save ::
  "(real \<Rightarrow> int \<Rightarrow> real list list \<Rightarrow> error + int list) \<Rightarrow>
   real \<Rightarrow> int \<Rightarrow> store \<Rightarrow> (error + frame) \<times> store" where
  "dbscan_train_and_save fit_predict eps min_samples st =
     (case scaler_joblib st of
        None \<Rightarrow> (Inl (FileNotFoundError (path_join MODELS_DIR SCALER_FILENAME)), st)
      | Some scaler \<Rightarrow>
          (case load_clean st of
             Inl e \<Rightarrow> (Inl e, st)
           | Inr df \<Rightarrow>
               let rfm = compute_rfm df
               in case apply_existing_scaler scaler rfm of
                    Inl e \<Rightarrow> (Inl e, st)
                  | Inr rfm_scaled \<Rightarrow>
                      (case fit_predict eps min_samples rfm_scaled of
                         Inl e \<Rightarrow> (Inl e, st)
                       | Inr labels \<Rightarrow>
                           (case set_DBSCAN_Cluster labels rfm of
                              Inl e \<Rightarrow> (Inl e, st)
                            | Inr rfm1 \<Rightarrow>
                                let st1 = st\<lparr>dbscan_joblib :=
                                               Some (DBSCAN eps min_samples labels)\<rparr>;
                                    rfm2 =
                                      (case rfm_parquet st1 of
                                         None \<Rightarrow> rfm1
                                       | Some existing \<Rightarrow>
                                           if ''Segment'' \<in> set (columns existing) \<and>
                                              ''Cluster'' \<in> set (columns existing)
                                           then merge_left rfm1 existing
                                           else rfm1)
                                in (Inr rfm2, st1\<lparr>rfm_parquet := Some rfm2\<rparr>)))))"

section \<open>Query service (app/app.py)\<close>

subsection \<open>Python's \<open>float\<close> on a string\<close>

text \<open>
  \<open>float\<close> is a builtin of the language, not code of the repository. The view that
  calls it takes it as the parameter \<open>py_float\<close>: from the string to the number it
  denotes, or \<open>None\<close> where \<open>float\<close> raises \<open>ValueError\<close>. A result is a finite number
  (represented by the real it denotes), an infinity or a NaN.
\<close>

datatype pyfloat = Finite real | PosInf | NegInf | NaN

subsection \<open>Responses and the cached frame\<close>

datatype json =
  JNull | JNaN | JInt int | JNum real | JStr string | JList "json list"
  | JObj "(string \<times> json) list"

text \<open>
  A view function returns a status and a JSON body, or lets an exception escape
  (\<open>Inl\<close>). The global \<open>_rfm_df\<close> is the second component of the state that every view
  function takes and returns.
\<close>

type_synonym response = "error + nat \<times> json"

definition NO_DATA :: json where
  "NO_DATA = JObj [(''error'', JStr ''No processed RFM data. Run: python -m src.train_kmeans'')]"

definition get_rfm_df :: "store \<Rightarrow> frame option \<Rightarrow> frame option \<times> frame option" where
  "get_rfm_df st rfm_df =
     (case rfm_df of
        None \<Rightarrow> (case rfm_parquet st of
                    None \<Rightarrow> (None, None)
                  | Some df \<Rightarrow> (Some df, Some df))
      | Some df \<Rightarrow> (Some df, Some df))"

subsection \<open>The read endpoints\<close>

text \<open>
  \<open>Series.value_counts\<close>: the distinct non-null values with their counts, the largest
  count first, values of equal count in the order of their first appearance
  (\<open>remdups\<close> keeps the last occurrence of a value, hence the two reversals; \<open>sort_key\<close>
  is stable).
\<close>

definition value_counts :: "string option list \<Rightarrow> (string \<times> nat) list" where
  "value_counts xs =
     (let vs = map the (filter (\<lambda>x. x \<noteq> None) xs)
      in sort_key (\<lambda>(v, n). - int n)
           (map (\<lambda>v. (v, count_list vs v)) (rev (remdups (rev vs)))))"

text \<open>\<open>round(2)\<close>: to two decimals, a tie to the even neighbour.\<close>

definition round_half_even :: "real \<Rightarrow> int" where
  "round_half_even y =
     (let f = \<lfloor>y\<rfloor>; d = y - of_int f
      in if d < 1 / 2 then f else if 1 / 2 < d then f + 1 else if even f then f else f + 1)"

definition round2 :: "real \<Rightarrow> real" where
  "round2 x = of_int (round_half_even (x * 100)) / 100"

text \<open>The keys of \<open>groupby("Segment")\<close>: the distinct non-null segments, sorted.\<close>

definition segment_keys :: "frame \<Rightarrow> string list" where
  "segment_keys rfm =
     sort (remdups (map the (filter (\<lambda>x. x \<noteq> None) (map Segment (rows rfm)))))"

definition segment_rows :: "string \<Rightarrow> frame \<Rightarrow> row list" where
  "segment_rows g rfm = filter (\<lambda>r. Segment r = Some g) (rows rfm)"

definition analytics_overview :: "store \<Rightarrow> frame option \<Rightarrow> response \<times> frame option" where
  "analytics_overview st rfm_df =
     (case get_rfm_df st rfm_df of
        (None, c) \<Rightarrow> (Inr (503, NO_DATA), c)
      | (Some rfm, c) \<Rightarrow>
          if ''Segment'' \<notin> set (columns rfm) then (Inl (KeyError ''Segment''), c)
          else
            let counts = value_counts (map Segment (rows rfm));
                total = int (length (remdups (map CustomerID (rows rfm))))
            in (Inr (200, JObj [(''total_customers'', JInt total),
                                (''segment_counts'',
                                   JObj (map (\<lambda>(v, n). (v, JInt (int n))) counts)),
                                (''segments'', JList (map (\<lambda>(v, n). JStr v) counts))]), c))"

definition analytics_segments :: "store \<Rightarrow> frame option \<Rightarrow> response \<times> frame option" where
  "analytics_segments st rfm_df =
     (case get_rfm_df st rfm_df of
        (None, c) \<Rightarrow> (Inr (503, NO_DATA), c)
      | (Some rfm, c) \<Rightarrow>
          if ''Segment'' \<notin> set (columns rfm) then (Inl (KeyError ''Segment''), c)
          else
            (Inr (200, JList (map (\<lambda>g. let rs = segment_rows g rfm in
                 JObj [(''Segment'', JStr g),
                       (''count'', JInt (int (length rs))),
                       (''mean_recency'', JNum (round2 (mean (map (\<lambda>r. of_int (Recency r)) rs)))),
                       (''mean_frequency'',
                          JNum (round2 (mean (map (\<lambda>r. of_int (Frequency r)) rs)))),
                       (''mean_monetary'', JNum (round2 (mean (map Monetary rs))))])
               (segment_keys rfm))), c))"

definition analytics_summary :: "store \<Rightarrow> frame option \<Rightarrow> response \<times> frame option" where
  "analytics_summary st rfm_df =
     (case get_rfm_df st rfm_df of
        (None, c) \<Rightarrow> (Inr (503, NO_DATA), c)
      | (Some rfm, c) \<Rightarrow>
          if ''Segment'' \<notin> set (columns rfm) then (Inl (KeyError ''Segment''), c)
          else
            (Inr (200, JList (map (\<lambda>g. let rs = segment_rows g rfm in
                 JObj [(''Segment'', JStr g),
                       (''Recency'', JNum (round2 (mean (map (\<lambda>r. of_int (Recency r)) rs)))),
                       (''Frequency'', JNum (round2 (mean (map (\<lambda>r. of_int (Frequency r)) rs)))),
                       (''Monetary'', JNum (round2 (mean (map Monetary rs))))])
               (segment_keys rfm))), c))"

text \<open>
  \<open>analytics_customer\<close>, with the builtin \<open>float\<close> as its first parameter. The guard on
  the frame comes first, then the \<open>try\<close> around \<open>float(customer_id)\<close>, then the selection of the rows whose key equals the parsed
  number (an infinity or a NaN equals no key). \<open>int\<close> of a null cell raises
  \<open>ValueError\<close>, outside the \<open>try\<close>.
\<close>

definition customer_out :: "frame \<Rightarrow> row \<Rightarrow> error + (string \<times> json) list" where
  "customer_out rfm r =
     (if ''Segment'' \<notin> set (columns rfm) then Inl (KeyError ''Segment'')
      else if ''Cluster'' \<notin> set (columns rfm) then Inl (KeyError ''Cluster'')
      else (case Cluster r of
              None \<Rightarrow> Inl (ValueError ''cannot convert float NaN to integer'')
            | Some k \<Rightarrow>
                let out = [(''CustomerID'', JNum (CustomerID r)),
                           (''Segment'', (case Segment r of None \<Rightarrow> JNaN | Some g \<Rightarrow> JStr g)),
                           (''Cluster'', JInt k),
                           (''Recency'', JNum (of_int (Recency r))),
                           (''Frequency'', JNum (of_int (Frequency r))),
                           (''Monetary'', JNum (Monetary r))]
                in if ''DBSCAN_Cluster'' \<in> set (columns rfm)
                   then (case DBSCAN_Cluster r of
                           None \<Rightarrow> Inl (ValueError ''cannot convert float NaN to integer'')
                         | Some l \<Rightarrow> Inr (out @ [(''DBSCAN_Cluster'', JInt l)]))
                   else Inr out))"

definition analytics_customer ::
  "(string \<Rightarrow> pyfloat option) \<Rightarrow> store \<Rightarrow> frame option \<Rightarrow> string \<Rightarrow>
   response \<times> frame option" where
  "analytics_customer py_float st rfm_df customer_id =
     (case get_rfm_df st rfm_df of
        (None, c) \<Rightarrow> (Inr (503, NO_DATA), c)
      | (Some rfm, c) \<Rightarrow>
          (case py_float customer_id of
             None \<Rightarrow> (Inr (400, JObj [(''error'', JStr ''customer_id must be numeric'')]), c)
           | Some cid \<Rightarrow>
               (case filter (\<lambda>r. Finite (CustomerID r) = cid) (rows rfm) of
                  [] \<Rightarrow> (Inr (404, JObj [(''error'',
                             JStr (''Customer '' @ customer_id @ '' not found''))]), c)
                | r # rest \<Rightarrow>
                    (case customer_out rfm r of
                       Inl e \<Rightarrow> (Inl e, c)
                     | Inr out \<Rightarrow> (Inr (200, JObj out), c)))))"

section \<open>A small batch of transactions\<close>

text \<open>
  Eight raw rows: customer 17850 has two rows under invoice 536365 and one under invoice
  536366; one row is a cancellation, one has no customer, one has quantity zero and one
  has unit price zero. \<open>example_clean\<close> and \<open>example_rfm\<close> are what cleaning and the
  feature builder make of them.
\<close>

definition example_raw :: "txn_raw list" where
  "example_raw =
     [\<lparr>InvoiceNo = InvStr ''536365'', StockCode = ''85123A'', Quantity = 6, InvoiceDate = 0,
       UnitPrice = 2, CustomerID = Some 17850\<rparr>,
      \<lparr>InvoiceNo = InvStr ''536365'', StockCode = ''71053'', Quantity = 2, InvoiceDate = 0,
       UnitPrice = 3, CustomerID = Some 17850\<rparr>,
      \<lparr>InvoiceNo = InvStr ''C536379'', StockCode = ''D'', Quantity = 1, InvoiceDate = 7,
       UnitPrice = 27, CustomerID = Some 14527\<rparr>,
      \<lparr>InvoiceNo = InvStr ''536366'', StockCode = ''22633'', Quantity = 1,
       InvoiceDate = 86400000000005, UnitPrice = 5, CustomerID = Some 17850\<rparr>,
      \<lparr>InvoiceNo = InvNum 536367, StockCode = ''84879'', Quantity = 4, InvoiceDate = 9,
       UnitPrice = 1, CustomerID = None\<rparr>,
      \<lparr>InvoiceNo = InvNum 536368, StockCode = ''22960'', Quantity = 0, InvoiceDate = 9,
       UnitPrice = 4, CustomerID = Some 13047\<rparr>,
      \<lparr>InvoiceNo = InvNum 536369, StockCode = ''21756'', Quantity = 3, InvoiceDate = 9,
       UnitPrice = 0, CustomerID = Some 13047\<rparr>,
      \<lparr>InvoiceNo = InvNum 536370, StockCode = ''22728'', Quantity = 24,
       InvoiceDate = 259200000000000, UnitPrice = 3, CustomerID = Some 12583\<rparr>]"

definition example_clean :: "txn list" where
  "example_clean =
     [\<lparr>InvoiceNo = InvStr ''536365'', StockCode = ''85123A'', Quantity = 6, InvoiceDate = 0,
       UnitPrice = 2, CustomerID = Some 17850, TotalPrice = 12\<rparr>,
      \<lparr>InvoiceNo = InvStr ''536365'', StockCode = ''71053'', Quantity = 2, InvoiceDate = 0,
       UnitPrice = 3, CustomerID = Some 17850, TotalPrice = 6\<rparr>,
      \<lparr>InvoiceNo = InvStr ''536366'', StockCode = ''22633'', Quantity = 1,
       InvoiceDate = 86400000000005, UnitPrice = 5, CustomerID = Some 17850, TotalPrice = 5\<rparr>,
      \<lparr>InvoiceNo = InvNum 536370, StockCode = ''22728'', Quantity = 24,
       InvoiceDate = 259200000000000, UnitPrice = 3, CustomerID = Some 12583,
       TotalPrice = 72\<rparr>]"

definition example_rfm :: "row list" where
  "example_rfm =
     [\<lparr>CustomerID = 12583, Recency = 1, Frequency = 1, Monetary = 72,
       DBSCAN_Cluster = None, Cluster = None, Segment = None\<rparr>,
      \<lparr>CustomerID = 17850, Recency = 2, Frequency = 2, Monetary = 23,
       DBSCAN_Cluster = None, Cluster = None, Segment = None\<rparr>]"

text \<open>
  A store without any file, a clustering black box that labels every point as noise, and
  a store for a density run after a centroid run: the raw file, a scaler and a labeled
  dataset that knows customer 17850 (and customer 13047, who has no row left after
  cleaning) but not customer 12583. \<open>example_merged\<close> is the frame that run writes.
\<close>

definition empty_store :: store where
  "empty_store = \<lparr>raw_csv = None, scaler_joblib = None, kmeans_joblib = None,
                   dbscan_joblib = None, segment_map_joblib = None, rfm_parquet = None\<rparr>"

definition all_noise :: "real \<Rightarrow> int \<Rightarrow> real list list \<Rightarrow> error + int list" where
  "all_noise e m X = Inr (map (\<lambda>x. - 1) X)"

definition example_scaler :: scaler where
  "example_scaler = \<lparr>scaler_mean = [0, 0, 0], scaler_scale = [1, 1, 1]\<rparr>"

definition example_existing :: frame where
  "example_existing =
     \<lparr>columns = [''CustomerID'', ''Recency'', ''Frequency'', ''Monetary'', ''Cluster'', ''Segment''],
      rows = [\<lparr>CustomerID = 13047, Recency = 4, Frequency = 1, Monetary = 9,
               DBSCAN_Cluster = None, Cluster = Some 3, Segment = Some ''Low Value''\<rparr>,
              \<lparr>CustomerID = 17850, Recency = 2, Frequency = 2, Monetary = 23,
               DBSCAN_Cluster = None, Cluster = Some 1, Segment = Some ''Loyal''\<rparr>]\<rparr>"

definition example_store :: store where
  "example_store =
     \<lparr>raw_csv = Some example_raw, scaler_joblib = Some example_scaler, kmeans_joblib = None,
      dbscan_joblib = None, segment_map_joblib = None, rfm_parquet = Some example_existing\<rparr>"

definition example_merged :: frame where
  "example_merged =
     \<lparr>columns = [''CustomerID'', ''Recency'', ''Frequency'', ''Monetary'', ''DBSCAN_Cluster'',
                 ''Cluster'', ''Segment''],
      rows = [\<lparr>CustomerID = 12583, Recency = 1, Frequency = 1, Monetary = 72,
               DBSCAN_Cluster = Some (- 1), Cluster = None, Segment = None\<rparr>,
              \<lparr>CustomerID = 17850, Recency = 2, Frequency = 2, Monetary = 23,
               DBSCAN_Cluster = Some (- 1), Cluster = Some 1, Segment = Some ''Loyal''\<rparr>]\<rparr>"

text \<open>
  Five customers with one purchase each, and a clustering black box that puts every
  point in a cluster of its own.
\<close>

definition example_raw5 :: "txn_raw list" where
  "example_raw5 =
     [\<lparr>InvoiceNo = InvNum 536400, StockCode = ''22423'', Quantity = 1, InvoiceDate = 0,
       UnitPrice = 2, CustomerID = Some 12345\<rparr>,
      \<lparr>InvoiceNo = InvNum 536401, StockCode = ''22423'', Quantity = 2, InvoiceDate = 1,
       UnitPrice = 2, CustomerID = Some 12346\<rparr>,
      \<lparr>InvoiceNo = InvNum 536402, StockCode = ''22423'', Quantity = 3, InvoiceDate = 2,
       UnitPrice = 2, CustomerID = Some 12347\<rparr>,
      \<lparr>InvoiceNo = InvNum 536403, StockCode = ''22423'', Quantity = 4, InvoiceDate = 3,
       UnitPrice = 2, CustomerID = Some 12348\<rparr>,
      \<lparr>InvoiceNo = InvNum 536404, StockCode = ''22423'', Quantity = 5, InvoiceDate = 4,
       UnitPrice = 2, CustomerID = Some 12349\<rparr>]"

definition own_cluster :: "int \<Rightarrow> int \<Rightarrow> real list list \<Rightarrow> error + int list" where
  "own_cluster n_clusters random_state X = Inr (map int [0..<length X])"

text \<open>
  A frame that the query service has loaded: the fixture customer 17850 of the
  specification. And an instance of the parameter \<open>py_float\<close> for the two identifiers of
  the examples: it fixes no more than that \<open>float("17850")\<close> is 17850.0 and that
  \<open>float("abc")\<close> raises \<open>ValueError\<close>.
\<close>

definition example_float :: "string \<Rightarrow> pyfloat option" where
  "example_float s = (if s = ''17850'' then Some (Finite 17850) else None)"

definition example_cached :: frame where
  "example_cached =
     \<lparr>columns = [''CustomerID'', ''Recency'', ''Frequency'', ''Monetary'', ''Cluster'', ''Segment''],
      rows = [\<lparr>CustomerID = 17850, Recency = 5, Frequency = 3, Monetary = 241 / 2,
               DBSCAN_Cluster = None, Cluster = Some 1, Segment = Some ''Loyal''\<rparr>]\<rparr>"

section \<open>Properties of cleaning\<close>

lemma str_nat_nonempty: "str_nat n \<noteq> []"
  by (subst str_nat.simps) simp

lemma hd_str_nat_digit: "\<exists>d::nat. d < 10 \<and> hd (str_nat n) = char_of (48 + d)"
proof (induction n rule: str_nat.induct)
  case (1 n)
  show ?case
  proof (cases "n < 10")
    case True
    then show ?thesis by (subst str_nat.simps) auto
  next
    case False
    with 1 obtain d :: nat where "d < 10" "hd (str_nat (n div 10)) = char_of (48 + d)" by auto
    with False show ?thesis
      by (subst str_nat.simps) (auto simp: str_nat_nonempty)
  qed
qed

lemma digit_not_C: "d < 10 \<Longrightarrow> char_of (48 + d :: nat) \<noteq> CHR ''C''"
proof -
  assume "d < 10"
  then have "d \<in> {0,1,2,3,4,5,6,7,8,9}" by auto
  then show ?thesis by (auto simp: char_of_def)
qed

lemma str_int_not_C: "\<not> startswith (str_int i) ''C''"
proof -
  obtain d :: nat where d: "d < 10" "hd (str_nat (nat \<bar>i\<bar>)) = char_of (48 + d)"
    using hd_str_nat_digit by blast
  have ne: "str_nat (nat \<bar>i\<bar>) \<noteq> []" by (rule str_nat_nonempty)
  show ?thesis
  proof (cases "i < 0")
    case True
    then show ?thesis by (simp add: startswith_def str_int_def)
  next
    case False
    then have "str_int i = str_nat (nat \<bar>i\<bar>)" by (simp add: str_int_def)
    moreover have "take 1 (str_nat (nat \<bar>i\<bar>)) = [hd (str_nat (nat \<bar>i\<bar>))]"
      using ne by (cases "str_nat (nat \<bar>i\<bar>)") auto
    ultimately show ?thesis using d digit_not_C[of d] by (simp add: startswith_def)
  qed
qed

lemma startswith_Cons: "startswith (c # s) [d] = (c = d)"
  by (simp add: startswith_def)

lemma with_total_truncate: "txn_raw.truncate (with_total r) = r"
  by (simp add: with_total_def txn_raw.truncate_def txn_raw.extend_def)

lemma TotalPrice_with_total: "TotalPrice (with_total r) = of_int (Quantity r) * UnitPrice r"
  by (simp add: with_total_def txn_raw.extend_def)

lemma clean_transactions_filter:
  "clean_transactions df =
     map with_total
       (filter (\<lambda>r. txn_raw.CustomerID r \<noteq> None \<and> Quantity r > 0 \<and> UnitPrice r > 0 \<and>
                    \<not> startswith (astype_str (InvoiceNo r)) ''C'') df)"
  unfolding clean_transactions_def Let_def filter_filter
  by (rule arg_cong[where f = "map with_total"], rule filter_cong) auto

lemma clean_example: "clean_transactions example_raw = example_clean"
  by (simp add: clean_transactions_def example_raw_def example_clean_def Let_def startswith_Cons
      with_total_def txn_raw.extend_def str_int_not_C)

text \<open>
  C4. For every input table, \<open>clean_transactions\<close> returns exactly the input rows, in
  their order, that have a customer identifier, a quantity above zero, a unit price above
  zero and an invoice string that does not start with \<open>C\<close>: dropping the new column from
  the result gives back that selection of the input, and the new column \<open>TotalPrice\<close> of
  every returned row is its quantity times its unit price.
\<close>

theorem clean_transactions_exact:
  "clean_transactions df =
     map with_total
       (filter (\<lambda>r. txn_raw.CustomerID r \<noteq> None \<and> Quantity r > 0 \<and> UnitPrice r > 0 \<and>
                    \<not> startswith (astype_str (InvoiceNo r)) ''C'') df)
   \<and> map txn_raw.truncate (clean_transactions df) =
       filter (\<lambda>r. txn_raw.CustomerID r \<noteq> None \<and> Quantity r > 0 \<and> UnitPrice r > 0 \<and>
                    \<not> startswith (astype_str (InvoiceNo r)) ''C'') df
   \<and> map TotalPrice (clean_transactions df) =
       map (\<lambda>r. of_int (Quantity r) * UnitPrice r)
         (filter (\<lambda>r. txn_raw.CustomerID r \<noteq> None \<and> Quantity r > 0 \<and> UnitPrice r > 0 \<and>
                    \<not> startswith (astype_str (InvoiceNo r)) ''C'') df)"
proof -
  let ?keep = "\<lambda>r. txn_raw.CustomerID r \<noteq> None \<and> Quantity r > 0 \<and> UnitPrice r > 0 \<and>
                    \<not> startswith (astype_str (InvoiceNo r)) ''C''"
  have eq: "clean_transactions df = map with_total (filter ?keep df)"
    by (rule clean_transactions_filter)
  have tr: "map txn_raw.truncate (map with_total (filter ?keep df)) = filter ?keep df"
    by (simp add: with_total_truncate comp_def)
  have tp: "map TotalPrice (map with_total (filter ?keep df)) =
        map (\<lambda>r. of_int (Quantity r) * UnitPrice r) (filter ?keep df)"
    by (simp add: TotalPrice_with_total comp_def)
  show ?thesis using eq tr tp by simp
qed

section \<open>Properties of the RFM features\<close>

lemma filter_map_distinct_key:
  "distinct ks \<Longrightarrow> c \<in> set ks \<Longrightarrow> (\<And>k. CustomerID (f k) = k) \<Longrightarrow>
   filter (\<lambda>r. CustomerID r = c) (map f ks) = [f c]"
proof (induction ks)
  case Nil
  then show ?case by simp
next
  case (Cons k ks)
  show ?case
  proof (cases "k = c")
    case True
    with Cons.prems have "c \<notin> set ks" by simp
    then have "filter (\<lambda>r. CustomerID r = c) (map f ks) = []"
      using Cons.prems(3) by (auto simp: filter_empty_conv)
    with True Cons.prems(3) show ?thesis by simp
  next
    case False
    with Cons show ?thesis by simp
  qed
qed

lemma CustomerID_rfm_of_group: "CustomerID (rfm_of_group s c g) = c"
  by (simp add: rfm_of_group_def)

lemma distinct_group_keys: "distinct (group_keys df)"
  by (simp add: group_keys_def)

lemma set_group_keys: "set (group_keys df) = {c. \<exists>t \<in> set df. txn_raw.CustomerID t = Some c}"
  by (force simp: group_keys_def image_iff)

lemma rows_compute_rfm:
  "df \<noteq> [] \<Longrightarrow> rows (compute_rfm df) =
     map (\<lambda>c. rfm_of_group (Max (set (map InvoiceDate df)) + day) c (group_rows c df)) (group_keys df)"
  by (simp add: compute_rfm_def Let_def)

lemma rfm_example: "rows (compute_rfm example_clean) = example_rfm"
  by (simp add: compute_rfm_def example_clean_def example_rfm_def Let_def group_keys_def
      group_rows_def rfm_of_group_def day_def)

lemma rfm_row_cases:
  assumes "r \<in> set (rows (compute_rfm df))"
  obtains c where "df \<noteq> []" and "group_rows c df \<noteq> []"
    and "r = rfm_of_group (Max (set (map InvoiceDate df)) + day) c (group_rows c df)"
proof -
  from assms have ne: "df \<noteq> []" by (auto simp: compute_rfm_def)
  with assms obtain c where c: "c \<in> set (group_keys df)"
    and r: "r = rfm_of_group (Max (set (map InvoiceDate df)) + day) c (group_rows c df)"
    by (auto simp: rows_compute_rfm)
  from c have g: "group_rows c df \<noteq> []"
    by (auto simp: set_group_keys group_rows_def filter_empty_conv)
  show ?thesis by (rule that[OF ne g r])
qed

lemma recency_of_group_ge_1:
  assumes "g \<noteq> []" and "set g \<subseteq> set df"
  shows "1 \<le> Recency (rfm_of_group (Max (set (map InvoiceDate df)) + day) c g)"
proof -
  let ?M = "Max (set (map InvoiceDate df))" and ?m = "Max (set (map InvoiceDate g))"
  have "?m \<le> ?M"
    using assms by (intro Max_mono) auto
  then have "day \<le> ?M + day - ?m" by simp
  then have "day div day \<le> (?M + day - ?m) div day"
    by (rule zdiv_mono1) (simp add: day_def)
  then show ?thesis by (simp add: rfm_of_group_def day_def)
qed

lemma frequency_of_group_ge_1:
  assumes "g \<noteq> []"
  shows "1 \<le> Frequency (rfm_of_group s c g)"
proof -
  from assms have "remdups (map InvoiceNo g) \<noteq> []" by simp
  then have "1 \<le> length (remdups (map InvoiceNo g))"
    by (cases "remdups (map InvoiceNo g)") simp_all
  then show ?thesis by (simp add: rfm_of_group_def)
qed

lemma clean_total_pos:
  assumes "t \<in> set (clean_transactions raw)"
  shows "0 < TotalPrice t"
proof -
  from assms have "t \<in> with_total ` {r \<in> set raw. 0 < Quantity r \<and> 0 < UnitPrice r}"
    unfolding clean_transactions_filter set_map set_filter by blast
  then obtain r where "t = with_total r" and "0 < Quantity r" and "0 < UnitPrice r"
    by blast
  then show ?thesis by (simp add: TotalPrice_with_total)
qed

lemma monetary_of_clean_group_nonneg:
  "0 \<le> Monetary (rfm_of_group s c (group_rows c (clean_transactions raw)))"
proof -
  have "0 \<le> x" if "x \<in> set (map TotalPrice (group_rows c (clean_transactions raw)))" for x
  proof -
    from that obtain t where "t \<in> set (clean_transactions raw)" "x = TotalPrice t"
      unfolding group_rows_def set_map set_filter by blast
    then show ?thesis using clean_total_pos[of t raw] by simp
  qed
  then have "0 \<le> sum_list (map TotalPrice (group_rows c (clean_transactions raw)))"
    by (rule sum_list_nonneg)
  then show ?thesis by (simp add: rfm_of_group_def)
qed

text \<open>
  C5. For every transaction table and every customer with a row in it, \<open>compute_rfm\<close>
  gives that customer exactly one row, and its \<open>Frequency\<close> is the number of distinct
  invoice identifiers among the customer's rows, not the number of those rows.
\<close>

theorem frequency_counts_distinct_invoices:
  assumes "t \<in> set df" and "txn_raw.CustomerID t = Some c"
  shows "map Frequency (filter (\<lambda>r. CustomerID r = c) (rows (compute_rfm df))) =
           [int (card (InvoiceNo ` {u \<in> set df. txn_raw.CustomerID u = Some c}))]"
proof -
  from assms have ne: "df \<noteq> []" by auto
  from assms have c: "c \<in> set (group_keys df)" by (auto simp: set_group_keys)
  have "filter (\<lambda>r. CustomerID r = c) (rows (compute_rfm df)) =
          [rfm_of_group (Max (set (map InvoiceDate df)) + day) c (group_rows c df)]"
    unfolding rows_compute_rfm[OF ne]
    by (rule filter_map_distinct_key[OF distinct_group_keys c]) (rule CustomerID_rfm_of_group)
  moreover have "set (map InvoiceNo (group_rows c df)) =
                   InvoiceNo ` {u \<in> set df. txn_raw.CustomerID u = Some c}"
    by (auto simp: group_rows_def)
  ultimately show ?thesis
    by (simp add: rfm_of_group_def length_remdups_card_conv del: set_map)
qed

text \<open>
  The customer 17850 of the example has three cleaned rows, two under one invoice and
  one under another, and \<open>Frequency\<close> 2.
\<close>

theorem frequency_counts_distinct_invoices_witness:
  "length (group_rows 17850 example_clean) = 3 \<and>
   map InvoiceNo (group_rows 17850 example_clean) =
     [InvStr ''536365'', InvStr ''536365'', InvStr ''536366''] \<and>
   map Frequency (filter (\<lambda>r. CustomerID r = 17850) (rows (compute_rfm example_clean))) = [2]"
proof -
  have t: "hd example_clean \<in> set example_clean"
    by (simp add: example_clean_def)
  have c: "txn_raw.CustomerID (hd example_clean) = Some 17850"
    by (simp add: example_clean_def)
  have s: "{u \<in> set example_clean. txn_raw.CustomerID u = Some 17850} =
             set (group_rows 17850 example_clean)"
    by (simp add: group_rows_def)
  have g: "map InvoiceNo (group_rows 17850 example_clean) =
             [InvStr ''536365'', InvStr ''536365'', InvStr ''536366'']"
    by (simp add: group_rows_def example_clean_def)
  have "InvoiceNo ` set (group_rows 17850 example_clean) =
          {InvStr ''536365'', InvStr ''536366''}"
    unfolding set_map[symmetric] g by simp
  then have "card (InvoiceNo ` {u \<in> set example_clean. txn_raw.CustomerID u = Some 17850}) = 2"
    unfolding s by simp
  with frequency_counts_distinct_invoices[OF t c] g show ?thesis
    by (simp add: group_rows_def example_clean_def)
qed

text \<open>
  C6. Every row that \<open>compute_rfm\<close> makes from an output of \<open>clean_transactions\<close> has
  \<open>Frequency\<close> at least 1, \<open>Monetary\<close> at least 0 and \<open>Recency\<close> at least 0.
\<close>

theorem rfm_rows_bounds:
  assumes "r \<in> set (rows (compute_rfm (clean_transactions raw)))"
  shows "1 \<le> Frequency r \<and> 0 \<le> Monetary r \<and> 0 \<le> Recency r"
proof -
  from assms obtain c where g: "group_rows c (clean_transactions raw) \<noteq> []"
    and r: "r = rfm_of_group (Max (set (map InvoiceDate (clean_transactions raw))) + day) c
                  (group_rows c (clean_transactions raw))"
    by (rule rfm_row_cases)
  have sub: "set (group_rows c (clean_transactions raw)) \<subseteq> set (clean_transactions raw)"
    by (auto simp: group_rows_def)
  have "1 \<le> Recency r" unfolding r by (rule recency_of_group_ge_1[OF g sub])
  moreover have "1 \<le> Frequency r" unfolding r by (rule frequency_of_group_ge_1[OF g])
  moreover have "0 \<le> Monetary r" unfolding r by (rule monetary_of_clean_group_nonneg)
  ultimately show ?thesis by simp
qed

theorem rfm_rows_bounds_witness:
  "example_rfm ! 1 \<in> set (rows (compute_rfm (clean_transactions example_raw))) \<and>
   1 \<le> Frequency (example_rfm ! 1) \<and> 0 \<le> Monetary (example_rfm ! 1) \<and>
   0 \<le> Recency (example_rfm ! 1)"
proof -
  have h: "example_rfm ! 1 \<in> set (rows (compute_rfm (clean_transactions example_raw)))"
    unfolding clean_example rfm_example by (simp add: example_rfm_def)
  from h rfm_rows_bounds[OF h] show ?thesis by simp
qed

text \<open>
  C9. Every row that \<open>compute_rfm\<close> makes from an output of \<open>clean_transactions\<close> has
  \<open>Recency\<close> at least 1: the snapshot date is one day after the latest invoice date of
  the whole table, and no customer's latest invoice date is later than that.
\<close>

theorem recency_strictly_positive:
  assumes "r \<in> set (rows (compute_rfm (clean_transactions raw)))"
  shows "1 \<le> Recency r"
proof -
  from assms obtain c where g: "group_rows c (clean_transactions raw) \<noteq> []"
    and r: "r = rfm_of_group (Max (set (map InvoiceDate (clean_transactions raw))) + day) c
                  (group_rows c (clean_transactions raw))"
    by (rule rfm_row_cases)
  have sub: "set (group_rows c (clean_transactions raw)) \<subseteq> set (clean_transactions raw)"
    by (auto simp: group_rows_def)
  show ?thesis unfolding r by (rule recency_of_group_ge_1[OF g sub])
qed

theorem recency_strictly_positive_witness:
  "example_rfm ! 0 \<in> set (rows (compute_rfm (clean_transactions example_raw))) \<and>
   Recency (example_rfm ! 0) = 1 \<and> 1 \<le> Recency (example_rfm ! 0)"
proof -
  have h: "example_rfm ! 0 \<in> set (rows (compute_rfm (clean_transactions example_raw)))"
    unfolding clean_example rfm_example by (simp add: example_rfm_def)
  from h recency_strictly_positive[OF h] show ?thesis by (simp add: example_rfm_def)
qed

section \<open>Properties of the density trainer\<close>

lemma prepare_for_clustering_Inr:
  assumes "prepare_for_clustering rfm = Inr (rfm_log, rfm_scaled, fitted)"
  shows "log_features rfm = Inr rfm_log" and "fit rfm_log = Inr fitted"
    and "transform fitted rfm_log = Inr rfm_scaled"
  using assms
  by (auto simp: prepare_for_clustering_def fit_transform_def split: sum.splits)

lemma dbscan_keeps_scaler:
  "scaler_joblib (snd (dbscan_train_and_save fp eps ms st)) = scaler_joblib st"
  by (simp add: dbscan_train_and_save_def Let_def split: option.splits sum.splits)

lemma dbscan_run_Inr:
  assumes "dbscan_train_and_save fp eps ms st = (Inr out, st')"
  obtains scaler df X labels fresh where
    "scaler_joblib st = Some scaler" and "load_clean st = Inr df"
    and "apply_existing_scaler scaler (compute_rfm df) = Inr X"
    and "fp eps ms X = Inr labels"
    and "set_DBSCAN_Cluster labels (compute_rfm df) = Inr fresh"
    and "st' = st\<lparr>dbscan_joblib := Some (DBSCAN eps ms labels), rfm_parquet := Some out\<rparr>"
    and "out = (case rfm_parquet st of
                  None \<Rightarrow> fresh
                | Some existing \<Rightarrow>
                    if ''Segment'' \<in> set (columns existing) \<and> ''Cluster'' \<in> set (columns existing)
                    then merge_left fresh existing else fresh)"
  using assms
  by (auto simp: dbscan_train_and_save_def Let_def split: option.splits sum.splits if_splits)

lemma merge_row_nonempty: "merge_row R l \<noteq> []"
  by (simp add: merge_row_def split: list.splits)

lemma merge_row_base:
  assumes "o' \<in> set (merge_row R l)"
  shows "o'\<lparr>Cluster := None, Segment := None\<rparr> = l\<lparr>Cluster := None, Segment := None\<rparr>"
  using assms by (auto simp: merge_row_def split: list.splits)

lemma merge_row_key:
  assumes "o' \<in> set (merge_row R l)"
  shows "CustomerID o' = CustomerID l"
  using assms by (auto simp: merge_row_def split: list.splits)

lemma merge_row_match:
  assumes "o' \<in> set (merge_row R l)" and "e \<in> set R" and "CustomerID e = CustomerID l"
  shows "\<exists>e' \<in> set R. CustomerID e' = CustomerID l \<and> Cluster o' = Cluster e' \<and>
                        Segment o' = Segment e'"
proof -
  let ?ms = "filter (\<lambda>r. CustomerID r = CustomerID l) R"
  from assms(2,3) have "e \<in> set ?ms" by simp
  then have ne: "?ms \<noteq> []" by (metis empty_iff empty_set)
  then have "merge_row R l = map (\<lambda>r. l\<lparr>Cluster := Cluster r, Segment := Segment r\<rparr>) ?ms"
    by (cases ?ms) (simp_all add: merge_row_def)
  with assms(1) obtain e' where "e' \<in> set ?ms"
    and "o' = l\<lparr>Cluster := Cluster e', Segment := Segment e'\<rparr>"
    by auto
  then show ?thesis by auto
qed

lemma merge_row_nomatch:
  assumes "o' \<in> set (merge_row R l)" and "\<forall>e \<in> set R. CustomerID e \<noteq> CustomerID l"
  shows "Cluster o' = None \<and> Segment o' = None"
proof -
  from assms(2) have "filter (\<lambda>r. CustomerID r = CustomerID l) R = []"
    by (simp add: filter_empty_conv)
  with assms(1) show ?thesis by (simp add: merge_row_def)
qed

lemma filter_distinct_key_le_1:
  "distinct (map f xs) \<Longrightarrow> length (filter (\<lambda>x. f x = k) xs) \<le> 1"
proof (induction xs)
  case Nil
  then show ?case by simp
next
  case (Cons x xs)
  show ?case
  proof (cases "f x = k")
    case True
    with Cons.prems have "k \<notin> f ` set xs" by simp
    then have "filter (\<lambda>x. f x = k) xs = []"
      unfolding filter_empty_conv by blast
    with True show ?thesis by simp
  next
    case False
    with Cons show ?thesis by simp
  qed
qed

lemma merge_row_distinct:
  assumes "distinct (map CustomerID R)"
  shows "map (\<lambda>o'. o'\<lparr>Cluster := None, Segment := None\<rparr>) (merge_row R l) =
           [l\<lparr>Cluster := None, Segment := None\<rparr>]"
proof -
  let ?ms = "filter (\<lambda>r. CustomerID r = CustomerID l) R"
  have "length ?ms \<le> 1" using assms by (rule filter_distinct_key_le_1)
  then consider "?ms = []" | e where "?ms = [e]"
    by (cases ?ms) (auto simp: length_Suc_conv)
  then show ?thesis
    by cases (simp_all add: merge_row_def)
qed

lemma merge_left_rows_mem:
  "o' \<in> set (rows (merge_left L R)) \<longleftrightarrow> (\<exists>l \<in> set (rows L). o' \<in> set (merge_row (rows R) l))"
  by (auto simp: merge_left_def)

lemma merge_left_base_set:
  "(\<lambda>o'. o'\<lparr>Cluster := None, Segment := None\<rparr>) ` set (rows (merge_left L R)) =
   (\<lambda>l. l\<lparr>Cluster := None, Segment := None\<rparr>) ` set (rows L)"
proof (intro set_eqI iffI)
  fix b
  assume "b \<in> (\<lambda>o'. o'\<lparr>Cluster := None, Segment := None\<rparr>) ` set (rows (merge_left L R))"
  then obtain o' l where "l \<in> set (rows L)" "o' \<in> set (merge_row (rows R) l)"
    and b: "b = o'\<lparr>Cluster := None, Segment := None\<rparr>"
    by (auto simp: merge_left_rows_mem)
  then show "b \<in> (\<lambda>l. l\<lparr>Cluster := None, Segment := None\<rparr>) ` set (rows L)"
    using merge_row_base[of o' "rows R" l] by auto
next
  fix b
  assume "b \<in> (\<lambda>l. l\<lparr>Cluster := None, Segment := None\<rparr>) ` set (rows L)"
  then obtain l where l: "l \<in> set (rows L)" and b: "b = l\<lparr>Cluster := None, Segment := None\<rparr>"
    by auto
  obtain o' where o': "o' \<in> set (merge_row (rows R) l)"
    using merge_row_nonempty[of "rows R" l] by (cases "merge_row (rows R) l") auto
  with l have "o' \<in> set (rows (merge_left L R))" by (auto simp: merge_left_rows_mem)
  moreover have "o'\<lparr>Cluster := None, Segment := None\<rparr> = b"
    using merge_row_base[OF o'] b by simp
  ultimately show "b \<in> (\<lambda>o'. o'\<lparr>Cluster := None, Segment := None\<rparr>) ` set (rows (merge_left L R))"
    by (metis image_eqI)
qed

lemma merge_left_distinct:
  assumes "distinct (map CustomerID (rows R))"
  shows "map (\<lambda>o'. o'\<lparr>Cluster := None, Segment := None\<rparr>) (rows (merge_left L R)) =
           map (\<lambda>l. l\<lparr>Cluster := None, Segment := None\<rparr>) (rows L)"
proof -
  have "map (\<lambda>o'. o'\<lparr>Cluster := None, Segment := None\<rparr>) (concat (map (merge_row (rows R)) ls)) =
          map (\<lambda>l. l\<lparr>Cluster := None, Segment := None\<rparr>) ls" for ls
    by (induction ls) (simp_all add: merge_row_distinct[OF assms])
  then show ?thesis by (simp add: merge_left_def)
qed

lemma merge_left_match:
  assumes "o' \<in> set (rows (merge_left L R))" and "e \<in> set (rows R)"
    and "CustomerID e = CustomerID o'"
  shows "\<exists>e' \<in> set (rows R). CustomerID e' = CustomerID o' \<and> Cluster o' = Cluster e' \<and>
                        Segment o' = Segment e'"
proof -
  from assms(1) obtain l where o': "o' \<in> set (merge_row (rows R) l)"
    by (auto simp: merge_left_rows_mem)
  then have k: "CustomerID o' = CustomerID l" by (rule merge_row_key)
  with assms(3) have "CustomerID e = CustomerID l" by simp
  from merge_row_match[OF o' assms(2) this] k show ?thesis by simp
qed

lemma merge_left_nomatch:
  assumes "o' \<in> set (rows (merge_left L R))"
    and "\<forall>e \<in> set (rows R). CustomerID e \<noteq> CustomerID o'"
  shows "Cluster o' = None \<and> Segment o' = None"
proof -
  from assms(1) obtain l where o': "o' \<in> set (merge_row (rows R) l)"
    by (auto simp: merge_left_rows_mem)
  then have k: "CustomerID o' = CustomerID l" by (rule merge_row_key)
  with assms(2) have "\<forall>e \<in> set (rows R). CustomerID e \<noteq> CustomerID l" by simp
  with o' show ?thesis by (rule merge_row_nomatch)
qed

lemma compute_rfm_columns: "columns (compute_rfm df) = rfm_columns"
  by (simp add: compute_rfm_def Let_def)

lemma compute_rfm_no_labels:
  assumes "r \<in> set (rows (compute_rfm df))"
  shows "Cluster r = None \<and> Segment r = None"
  using assms by (auto simp: compute_rfm_def Let_def rfm_of_group_def split: if_splits)

lemma set_DBSCAN_Cluster_Inr:
  assumes "set_DBSCAN_Cluster labels rfm = Inr fresh"
  shows "columns fresh = add_column ''DBSCAN_Cluster'' (columns rfm)"
    and "length labels = length (rows rfm)"
    and "rows fresh = map (\<lambda>(r, l). r\<lparr>DBSCAN_Cluster := Some l\<rparr>) (zip (rows rfm) labels)"
  using assms by (auto simp: set_DBSCAN_Cluster_def split: if_splits)

lemma fresh_no_labels:
  assumes "set_DBSCAN_Cluster labels (compute_rfm df) = Inr fresh" and "r \<in> set (rows fresh)"
  shows "r\<lparr>Cluster := None, Segment := None\<rparr> = r"
proof -
  from assms obtain r0 l where "r0 \<in> set (rows (compute_rfm df))"
    and r: "r = r0\<lparr>DBSCAN_Cluster := Some l\<rparr>"
    by (auto simp: set_DBSCAN_Cluster_Inr(3) dest: set_zip_leftD)
  then have "Cluster r0 = None \<and> Segment r0 = None" using compute_rfm_no_labels by blast
  with r show ?thesis by simp
qed

lemma fresh_columns:
  assumes "set_DBSCAN_Cluster labels (compute_rfm df) = Inr fresh"
  shows "columns fresh = rfm_columns @ [''DBSCAN_Cluster'']"
  using assms
  by (simp add: set_DBSCAN_Cluster_Inr(1) compute_rfm_columns add_column_def rfm_columns_def)

lemma compute_rfm_example:
  "compute_rfm example_clean = \<lparr>columns = rfm_columns, rows = example_rfm\<rparr>"
  using rfm_example by (simp add: compute_rfm_def Let_def example_clean_def)

lemma example_run:
  "dbscan_train_and_save all_noise (1 / 2) 5 example_store =
     (Inr example_merged,
      example_store\<lparr>dbscan_joblib := Some (DBSCAN (1 / 2) 5 [- 1, - 1]),
                    rfm_parquet := Some example_merged\<rparr>)"
  by (simp add: dbscan_train_and_save_def example_store_def load_clean_def load_raw_def
      clean_example compute_rfm_example apply_existing_scaler_def log_features_def transform_def
      example_scaler_def example_rfm_def all_noise_def set_DBSCAN_Cluster_def add_column_def
      rfm_columns_def example_existing_def merge_left_def merge_row_def example_merged_def
      Let_def)

text \<open>
  C3. When the scaler file does not exist, \<open>train_and_save\<close> of the density trainer
  fails with the error that \<open>joblib.load\<close> raises, which names the path of the scaler
  file, and it leaves the store as it was: whatever the clustering black box and the
  other files are, nothing is clustered and nothing is written.
\<close>

theorem dbscan_requires_scaler:
  assumes "scaler_joblib st = None"
  shows "dbscan_train_and_save fit_predict eps min_samples st =
           (Inl (FileNotFoundError ''models/scaler.joblib''), st)"
  using assms
  by (simp add: dbscan_train_and_save_def path_join_def MODELS_DIR_def SCALER_FILENAME_def)

theorem dbscan_requires_scaler_witness:
  "scaler_joblib (empty_store\<lparr>raw_csv := Some example_raw\<rparr>) = None \<and>
   dbscan_train_and_save all_noise (1 / 2) 5 (empty_store\<lparr>raw_csv := Some example_raw\<rparr>) =
     (Inl (FileNotFoundError ''models/scaler.joblib''), empty_store\<lparr>raw_csv := Some example_raw\<rparr>)"
proof -
  have h: "scaler_joblib (empty_store\<lparr>raw_csv := Some example_raw\<rparr>) = None"
    by (simp add: empty_store_def)
  from h dbscan_requires_scaler[OF h, of all_noise "1 / 2" 5] show ?thesis by simp
qed

text \<open>
  C1. Every run of \<open>train_and_save\<close> of the density trainer that returns writes the
  frame it returns. With \<open>fresh\<close> the freshly computed RFM table with its
  \<open>DBSCAN_Cluster\<close> column: when a labeled dataset was there with both a \<open>Cluster\<close> and
  a \<open>Segment\<close> column, the output is the left join of \<open>fresh\<close> with it on \<open>CustomerID\<close>;
  apart from the two joined cells the rows of the output are the rows of \<open>fresh\<close> (none
  dropped, none invented; one for one and in order when the prior dataset has one row
  per customer); a row of a customer of the prior dataset carries the \<open>Cluster\<close> and
  \<open>Segment\<close> of a prior row of that customer; a row of a customer unknown to the prior
  dataset has both cells null. Otherwise the output is \<open>fresh\<close>, without a \<open>Cluster\<close> or
  a \<open>Segment\<close> column.
\<close>

theorem dbscan_output_left_join:
  assumes run: "dbscan_train_and_save fp eps ms st = (Inr out, st')"
  shows "\<exists>scaler df X labels fresh.
     scaler_joblib st = Some scaler \<and> load_clean st = Inr df \<and>
     apply_existing_scaler scaler (compute_rfm df) = Inr X \<and> fp eps ms X = Inr labels \<and>
     set_DBSCAN_Cluster labels (compute_rfm df) = Inr fresh \<and>
     columns fresh = rfm_columns @ [''DBSCAN_Cluster''] \<and>
     rfm_parquet st' = Some out \<and>
     (case rfm_parquet st of
        None \<Rightarrow> out = fresh \<and> ''Cluster'' \<notin> set (columns out) \<and> ''Segment'' \<notin> set (columns out)
      | Some existing \<Rightarrow>
          if ''Segment'' \<in> set (columns existing) \<and> ''Cluster'' \<in> set (columns existing)
          then out = merge_left fresh existing \<and>
               columns out = columns fresh @ [''Cluster'', ''Segment''] \<and>
               (\<lambda>r. r\<lparr>Cluster := None, Segment := None\<rparr>) ` set (rows out) = set (rows fresh) \<and>
               (distinct (map CustomerID (rows existing)) \<longrightarrow>
                  map (\<lambda>r. r\<lparr>Cluster := None, Segment := None\<rparr>) (rows out) = rows fresh) \<and>
               (\<forall>r \<in> set (rows out).
                  (\<exists>e \<in> set (rows existing). CustomerID e = CustomerID r) \<longrightarrow>
                  (\<exists>e \<in> set (rows existing). CustomerID e = CustomerID r \<and>
                       Cluster r = Cluster e \<and> Segment r = Segment e)) \<and>
               (\<forall>r \<in> set (rows out).
                  (\<forall>e \<in> set (rows existing). CustomerID e \<noteq> CustomerID r) \<longrightarrow>
                  Cluster r = None \<and> Segment r = None)
          else out = fresh \<and> ''Cluster'' \<notin> set (columns out) \<and>
               ''Segment'' \<notin> set (columns out))"
proof -
  from run obtain scaler df X labels fresh where
    a: "scaler_joblib st = Some scaler" "load_clean st = Inr df"
      "apply_existing_scaler scaler (compute_rfm df) = Inr X" "fp eps ms X = Inr labels"
    and fresh: "set_DBSCAN_Cluster labels (compute_rfm df) = Inr fresh"
    and st': "st' = st\<lparr>dbscan_joblib := Some (DBSCAN eps ms labels), rfm_parquet := Some out\<rparr>"
    and out: "out = (case rfm_parquet st of
                  None \<Rightarrow> fresh
                | Some existing \<Rightarrow>
                    if ''Segment'' \<in> set (columns existing) \<and> ''Cluster'' \<in> set (columns existing)
                    then merge_left fresh existing else fresh)"
    by (rule dbscan_run_Inr)
  have cols: "columns fresh = rfm_columns @ [''DBSCAN_Cluster'']"
    using fresh by (rule fresh_columns)
  have nolab: "''Cluster'' \<notin> set (columns fresh) \<and> ''Segment'' \<notin> set (columns fresh)"
    by (simp add: cols rfm_columns_def)
  have id: "map (\<lambda>l. l\<lparr>Cluster := None, Segment := None\<rparr>) (rows fresh) = rows fresh"
    using fresh_no_labels[OF fresh] by (simp add: map_idI)
  have ids: "(\<lambda>l. l\<lparr>Cluster := None, Segment := None\<rparr>) ` set (rows fresh) = set (rows fresh)"
    using id by (metis set_map)
  have saved: "rfm_parquet st' = Some out" by (simp add: st')
  have tail: "(case rfm_parquet st of
        None \<Rightarrow> out = fresh \<and> ''Cluster'' \<notin> set (columns out) \<and> ''Segment'' \<notin> set (columns out)
      | Some existing \<Rightarrow>
          if ''Segment'' \<in> set (columns existing) \<and> ''Cluster'' \<in> set (columns existing)
          then out = merge_left fresh existing \<and>
               columns out = columns fresh @ [''Cluster'', ''Segment''] \<and>
               (\<lambda>r. r\<lparr>Cluster := None, Segment := None\<rparr>) ` set (rows out) = set (rows fresh) \<and>
               (distinct (map CustomerID (rows existing)) \<longrightarrow>
                  map (\<lambda>r. r\<lparr>Cluster := None, Segment := None\<rparr>) (rows out) = rows fresh) \<and>
               (\<forall>r \<in> set (rows out).
                  (\<exists>e \<in> set (rows existing). CustomerID e = CustomerID r) \<longrightarrow>
                  (\<exists>e \<in> set (rows existing). CustomerID e = CustomerID r \<and>
                       Cluster r = Cluster e \<and> Segment r = Segment e)) \<and>
               (\<forall>r \<in> set (rows out).
                  (\<forall>e \<in> set (rows existing). CustomerID e \<noteq> CustomerID r) \<longrightarrow>
                  Cluster r = None \<and> Segment r = None)
          else out = fresh \<and> ''Cluster'' \<notin> set (columns out) \<and>
               ''Segment'' \<notin> set (columns out))"
  proof (cases "rfm_parquet st")
    case None
    with out nolab show ?thesis by simp
  next
    case (Some existing)
    show ?thesis
    proof (cases "''Segment'' \<in> set (columns existing) \<and> ''Cluster'' \<in> set (columns existing)")
      case False
      with Some out nolab show ?thesis by auto
    next
      case True
      with Some out have o: "out = merge_left fresh existing" by simp
      have c: "columns out = columns fresh @ [''Cluster'', ''Segment'']"
        by (simp add: o merge_left_def)
      have b: "(\<lambda>r. r\<lparr>Cluster := None, Segment := None\<rparr>) ` set (rows out) = set (rows fresh)"
        unfolding o merge_left_base_set ids ..
      have d: "distinct (map CustomerID (rows existing)) \<longrightarrow>
                  map (\<lambda>r. r\<lparr>Cluster := None, Segment := None\<rparr>) (rows out) = rows fresh"
        unfolding o using merge_left_distinct[of existing fresh] id by simp
      have m: "\<forall>r \<in> set (rows out).
                  (\<exists>e \<in> set (rows existing). CustomerID e = CustomerID r) \<longrightarrow>
                  (\<exists>e \<in> set (rows existing). CustomerID e = CustomerID r \<and>
                       Cluster r = Cluster e \<and> Segment r = Segment e)"
        unfolding o using merge_left_match[of _ fresh existing] by blast
      have n: "\<forall>r \<in> set (rows out).
                  (\<forall>e \<in> set (rows existing). CustomerID e \<noteq> CustomerID r) \<longrightarrow>
                  Cluster r = None \<and> Segment r = None"
        unfolding o using merge_left_nomatch[of _ fresh existing] by blast
      from True Some o c b d m n show ?thesis by simp
    qed
  qed
  from a fresh cols saved tail show ?thesis by blast
qed

theorem dbscan_output_left_join_witness:
  "dbscan_train_and_save all_noise (1 / 2) 5 example_store =
     (Inr example_merged,
      example_store\<lparr>dbscan_joblib := Some (DBSCAN (1 / 2) 5 [- 1, - 1]),
                    rfm_parquet := Some example_merged\<rparr>) \<and>
   rfm_parquet example_store = Some example_existing \<and>
   map CustomerID (rows example_existing) = [13047, 17850] \<and>
   map CustomerID (rows example_merged) = [12583, 17850] \<and>
   map Cluster (rows example_merged) = [None, Some 1] \<and>
   map Segment (rows example_merged) = [None, Some ''Loyal''] \<and>
   (\<exists>fresh. example_merged = merge_left fresh example_existing \<and>
            columns fresh = rfm_columns @ [''DBSCAN_Cluster''])"
proof -
  have ex: "rfm_parquet example_store = Some example_existing"
    by (simp add: example_store_def)
  have cols: "''Segment'' \<in> set (columns example_existing) \<and>
              ''Cluster'' \<in> set (columns example_existing)"
    by (simp add: example_existing_def)
  from dbscan_output_left_join[OF example_run] ex cols
  have "\<exists>fresh. example_merged = merge_left fresh example_existing \<and>
            columns fresh = rfm_columns @ [''DBSCAN_Cluster'']"
    by auto
  then show ?thesis
    using example_run ex by (simp add: example_existing_def example_merged_def)
qed

section \<open>Properties of the feature scaler\<close>

lemma log_features_Inr:
  assumes "rows rfm \<noteq> []"
  shows "\<exists>X. log_features rfm = Inr X"
  using assms by (simp add: log_features_def)

lemma log_features_width:
  assumes "log_features rfm = Inr X" and "r \<in> set X"
  shows "length r = 3"
  using assms by (auto simp: log_features_def split: if_splits)

lemma length_log_features:
  assumes "log_features rfm = Inr X"
  shows "length X = length (rows rfm)"
  using assms by (auto simp: log_features_def split: if_splits)

lemma fit_Inr:
  assumes "X \<noteq> []"
  shows "\<exists>s. fit X = Inr s \<and> length (scaler_mean s) = length (hd X)"
  using assms by (simp add: fit_def)

lemma transform_Inr:
  assumes "X \<noteq> []" and "\<forall>r \<in> set X. length r = length (scaler_mean s)"
  shows "\<exists>Y. transform s X = Inr Y \<and> length Y = length X"
  using assms by (auto simp: transform_def list_ex_iff)

lemma prepare_for_clustering_total:
  assumes "rows rfm \<noteq> []"
  shows "\<exists>L Y s. prepare_for_clustering rfm = Inr (L, Y, s) \<and> log_features rfm = Inr L \<and>
                 length Y = length (rows rfm)"
proof -
  from assms obtain L where L: "log_features rfm = Inr L"
    using log_features_Inr by blast
  then have len: "length L = length (rows rfm)" by (rule length_log_features)
  with assms have ne: "L \<noteq> []" by auto
  then obtain s where s: "fit L = Inr s" "length (scaler_mean s) = length (hd L)"
    using fit_Inr by blast
  from ne have "hd L \<in> set L" by simp
  with L have "length (hd L) = 3" by (rule log_features_width)
  with s L have "\<forall>r \<in> set L. length r = length (scaler_mean s)"
    by (simp add: log_features_width)
  with ne obtain Y where Y: "transform s L = Inr Y" "length Y = length L"
    using transform_Inr by blast
  with s L len show ?thesis
    by (simp add: prepare_for_clustering_def fit_transform_def)
qed

text \<open>
  C7. The density trainer does not refit the scaler. For an RFM table on which the
  centroid path \<open>prepare_for_clustering\<close> returns its log features, its scaled features
  and its fitted scaler: the features the density trainer computes with a scaler are
  that scaler's \<open>transform\<close> of the centroid path's log features; with the scaler the
  centroid path fitted they are the centroid path's scaled features; a density run
  leaves the scaler file as it was; and the labels a density run stores are those the
  clustering black box gives on these features.
\<close>

theorem density_scaling_reuses_scaler:
  assumes "prepare_for_clustering rfm = Inr (rfm_log, rfm_scaled, fitted)"
  shows "apply_existing_scaler s rfm = transform s rfm_log \<and>
         apply_existing_scaler fitted rfm = Inr rfm_scaled \<and>
         scaler_joblib (snd (dbscan_train_and_save fp eps ms st)) = scaler_joblib st \<and>
         (scaler_joblib st = Some s \<longrightarrow> load_clean st = Inr df \<longrightarrow> compute_rfm df = rfm \<longrightarrow>
          transform s rfm_log = Inr X \<longrightarrow> fp eps ms X = Inr labels \<longrightarrow>
          length labels = length (rows rfm) \<longrightarrow>
          dbscan_joblib (snd (dbscan_train_and_save fp eps ms st)) = Some (DBSCAN eps ms labels))"
proof -
  from assms have lg: "log_features rfm = Inr rfm_log"
    and tr: "transform fitted rfm_log = Inr rfm_scaled"
    by (rule prepare_for_clustering_Inr)+
  have a: "apply_existing_scaler s rfm = transform s rfm_log" for s
    by (simp add: apply_existing_scaler_def lg)
  have b: "apply_existing_scaler fitted rfm = Inr rfm_scaled"
    using a tr by simp
  have c: "scaler_joblib (snd (dbscan_train_and_save fp eps ms st)) = scaler_joblib st"
    by (rule dbscan_keeps_scaler)
  have d: "dbscan_joblib (snd (dbscan_train_and_save fp eps ms st)) = Some (DBSCAN eps ms labels)"
    if "scaler_joblib st = Some s" "load_clean st = Inr df" "compute_rfm df = rfm"
      "transform s rfm_log = Inr X" "fp eps ms X = Inr labels" "length labels = length (rows rfm)"
    using that a[of s]
    by (simp add: dbscan_train_and_save_def Let_def set_DBSCAN_Cluster_def)
  from a b c d show ?thesis by blast
qed

theorem density_scaling_reuses_scaler_witness:
  "\<exists>rfm_log rfm_scaled fitted.
     prepare_for_clustering (compute_rfm example_clean) = Inr (rfm_log, rfm_scaled, fitted) \<and>
     length rfm_scaled = 2 \<and>
     apply_existing_scaler fitted (compute_rfm example_clean) = Inr rfm_scaled \<and>
     apply_existing_scaler example_scaler (compute_rfm example_clean) =
       transform example_scaler rfm_log \<and>
     scaler_joblib (snd (dbscan_train_and_save all_noise (1 / 2) 5 example_store)) =
       Some example_scaler"
proof -
  have "rows (compute_rfm example_clean) \<noteq> []"
    by (simp add: rfm_example example_rfm_def)
  then obtain L Y s where
    p: "prepare_for_clustering (compute_rfm example_clean) = Inr (L, Y, s)"
    and l: "length Y = length (rows (compute_rfm example_clean))"
    using prepare_for_clustering_total by blast
  from l have l2: "length Y = 2" by (simp add: rfm_example example_rfm_def)
  have sc: "scaler_joblib example_store = Some example_scaler"
    by (simp add: example_store_def)
  from density_scaling_reuses_scaler[OF p, of example_scaler all_noise "1 / 2" 5 example_store]
    p l2 sc
  show ?thesis by auto
qed

section \<open>Properties of the centroid trainer\<close>

lemma kmeans_run_Inr:
  assumes "kmeans_train_and_save fp n rs save st = (Inr out, st')"
  obtains df rfm_log rfm_scaled scaler labels rfm1 where
    "load_clean st = Inr df"
    and "prepare_for_clustering (compute_rfm df) = Inr (rfm_log, rfm_scaled, scaler)"
    and "fp n rs rfm_scaled = Inr labels"
    and "set_Cluster labels (compute_rfm df) = Inr rfm1"
    and "out = set_Segment rfm1"
    and "st' = (if save
                then st\<lparr>scaler_joblib := Some scaler, kmeans_joblib := Some (KMeans n rs labels),
                        segment_map_joblib := Some DEFAULT_SEGMENT_MAP, rfm_parquet := Some out\<rparr>
                else st\<lparr>scaler_joblib := Some scaler, kmeans_joblib := Some (KMeans n rs labels),
                        segment_map_joblib := Some DEFAULT_SEGMENT_MAP\<rparr>)"
  using assms
  by (auto simp: kmeans_train_and_save_def Let_def split: sum.splits if_splits)

lemma map_of_DEFAULT_SEGMENT_MAP_outside:
  "k \<notin> {0, 1, 2, 3} \<Longrightarrow> map_of DEFAULT_SEGMENT_MAP k = None"
  by (simp add: DEFAULT_SEGMENT_MAP_def)

lemma set_Segment_rows:
  assumes "r \<in> set (rows (set_Segment rfm))"
  shows "Segment r = (case Cluster r of None \<Rightarrow> None | Some k \<Rightarrow> map_of DEFAULT_SEGMENT_MAP k)"
  using assms by (auto simp: set_Segment_def)

lemma Cluster_set_Segment: "map Cluster (rows (set_Segment rfm)) = map Cluster (rows rfm)"
  by (simp add: set_Segment_def comp_def)

lemma set_Cluster_Inr:
  assumes "length labels = length (rows rfm)"
  shows "\<exists>rfm1. set_Cluster labels rfm = Inr rfm1 \<and> map Cluster (rows rfm1) = map Some labels"
proof -
  have "map Cluster (map (\<lambda>(r, l). r\<lparr>Cluster := Some l\<rparr>) (zip rs ls)) = map Some ls"
    if "length ls = length rs" for rs :: "row list" and ls
    using that by (induction rs ls rule: list_induct2') simp_all
  with assms show ?thesis by (simp add: set_Cluster_def)
qed

lemma CustomerID_compute_rfm: "map CustomerID (rows (compute_rfm df)) = group_keys df"
proof (cases "df = []")
  case True
  then show ?thesis by (simp add: compute_rfm_def group_keys_def)
next
  case False
  then show ?thesis by (simp add: rows_compute_rfm CustomerID_rfm_of_group comp_def)
qed

lemma example5_clean_customers:
  "map txn_raw.CustomerID (clean_transactions example_raw5) =
     [Some 12345, Some 12346, Some 12347, Some 12348, Some 12349]"
  by (simp add: example_raw5_def clean_transactions_def Let_def str_int_not_C with_total_def
      txn_raw.extend_def)

lemma example5_customers:
  "map CustomerID (rows (compute_rfm (clean_transactions example_raw5))) =
     [12345, 12346, 12347, 12348, 12349]"
  unfolding CustomerID_compute_rfm group_keys_def example5_clean_customers by simp

text \<open>
  C10. The centroid trainer maps \<open>Cluster\<close> to \<open>Segment\<close> through the fixed map of four
  entries whatever \<open>n_clusters\<close> is. In every run that returns, a row whose cluster is
  not 0, 1, 2 or 3 has a null \<open>Segment\<close> in the returned frame, which is the written
  frame when \<open>save_rfm\<close> is set. And the run returns, with the labels of the black box
  as its \<open>Cluster\<close> column, whenever the data is loaded, the features are prepared and
  the black box gives one label per customer: no label and no \<open>n_clusters\<close> makes it
  fail.
\<close>

theorem kmeans_segment_outside_map_is_null:
  "(kmeans_train_and_save fp n rs save st = (Inr out, st') \<longrightarrow>
      (\<forall>r \<in> set (rows out). \<forall>k. Cluster r = Some k \<longrightarrow> k \<notin> {0, 1, 2, 3} \<longrightarrow> Segment r = None) \<and>
      (\<forall>r \<in> set (rows out).
          Segment r = (case Cluster r of None \<Rightarrow> None | Some k \<Rightarrow> map_of DEFAULT_SEGMENT_MAP k)) \<and>
      (save \<longrightarrow> rfm_parquet st' = Some out) \<and>
      (\<not> save \<longrightarrow> rfm_parquet st' = rfm_parquet st) \<and>
      segment_map_joblib st' = Some DEFAULT_SEGMENT_MAP) \<and>
   (load_clean st = Inr df \<longrightarrow>
    prepare_for_clustering (compute_rfm df) = Inr (rfm_log, rfm_scaled, scaler) \<longrightarrow>
    fp n rs rfm_scaled = Inr labels \<longrightarrow> length labels = length (rows (compute_rfm df)) \<longrightarrow>
      (\<exists>out st'. kmeans_train_and_save fp n rs save st = (Inr out, st') \<and>
                 map Cluster (rows out) = map Some labels))"
proof (intro conjI impI)
  assume run: "kmeans_train_and_save fp n rs save st = (Inr out, st')"
  from run obtain rfm1 scaler' labels' where out: "out = set_Segment rfm1"
    and st': "st' = (if save
                then st\<lparr>scaler_joblib := Some scaler', kmeans_joblib := Some (KMeans n rs labels'),
                        segment_map_joblib := Some DEFAULT_SEGMENT_MAP, rfm_parquet := Some out\<rparr>
                else st\<lparr>scaler_joblib := Some scaler', kmeans_joblib := Some (KMeans n rs labels'),
                        segment_map_joblib := Some DEFAULT_SEGMENT_MAP\<rparr>)"
    by (rule kmeans_run_Inr)
  show seg: "\<forall>r \<in> set (rows out).
          Segment r = (case Cluster r of None \<Rightarrow> None | Some k \<Rightarrow> map_of DEFAULT_SEGMENT_MAP k)"
    unfolding out using set_Segment_rows by blast
  show "\<forall>r \<in> set (rows out). \<forall>k. Cluster r = Some k \<longrightarrow> k \<notin> {0, 1, 2, 3} \<longrightarrow> Segment r = None"
  proof (intro ballI allI impI)
    fix r k
    assume "r \<in> set (rows out)" "Cluster r = Some k" "k \<notin> {0, 1, 2, 3}"
    with seg map_of_DEFAULT_SEGMENT_MAP_outside[of k] show "Segment r = None" by simp
  qed
  show "rfm_parquet st' = Some out" if save using that st' by simp
  show "rfm_parquet st' = rfm_parquet st" if "\<not> save" using that st' by simp
  show "segment_map_joblib st' = Some DEFAULT_SEGMENT_MAP" using st' by simp
next
  assume a: "load_clean st = Inr df"
    "prepare_for_clustering (compute_rfm df) = Inr (rfm_log, rfm_scaled, scaler)"
    "fp n rs rfm_scaled = Inr labels" "length labels = length (rows (compute_rfm df))"
  from a(4) obtain rfm1 where r1: "set_Cluster labels (compute_rfm df) = Inr rfm1"
    and c: "map Cluster (rows rfm1) = map Some labels"
    using set_Cluster_Inr by blast
  from a(1-3) r1 have "\<exists>st'. kmeans_train_and_save fp n rs save st = (Inr (set_Segment rfm1), st')"
    by (simp add: kmeans_train_and_save_def Let_def)
  with c show "\<exists>out st'. kmeans_train_and_save fp n rs save st = (Inr out, st') \<and>
                 map Cluster (rows out) = map Some labels"
    using Cluster_set_Segment[of rfm1] by auto
qed

theorem kmeans_segment_outside_map_is_null_witness:
  "\<exists>out st'.
     kmeans_train_and_save own_cluster 5 42 True (empty_store\<lparr>raw_csv := Some example_raw5\<rparr>) =
       (Inr out, st') \<and>
     map CustomerID (rows out) = [12345, 12346, 12347, 12348, 12349] \<and>
     map Cluster (rows out) = [Some 0, Some 1, Some 2, Some 3, Some 4] \<and>
     map Segment (rows out) =
       [Some ''High Value'', Some ''Loyal'', Some ''At Risk'', Some ''Low Value'', None] \<and>
     rfm_parquet st' = Some out"
proof -
  let ?st = "empty_store\<lparr>raw_csv := Some example_raw5\<rparr>"
  let ?df = "clean_transactions example_raw5"
  have ld: "load_clean ?st = Inr ?df"
    by (simp add: load_clean_def load_raw_def empty_store_def)
  have len: "length (rows (compute_rfm ?df)) = 5"
  proof -
    have "length (map CustomerID (rows (compute_rfm ?df))) = 5"
      unfolding example5_customers by simp
    then show ?thesis by simp
  qed
  then have "rows (compute_rfm ?df) \<noteq> []" by auto
  then obtain L Y s where
    p: "prepare_for_clustering (compute_rfm ?df) = Inr (L, Y, s)"
    and l: "length Y = length (rows (compute_rfm ?df))"
    using prepare_for_clustering_total by blast
  have upt: "[0..<5] = [0, 1, 2, 3, 4]" by (simp add: upt_rec)
  have fp: "own_cluster 5 42 Y = Inr [0, 1, 2, 3, 4]"
    using l len by (simp add: own_cluster_def upt)
  have ll: "length [0, 1, 2, 3, 4 :: int] = length (rows (compute_rfm ?df))"
    using len by simp
  note total = kmeans_segment_outside_map_is_null[of own_cluster 5 42 True "?st" _ _ "?df"
      L Y s "[0, 1, 2, 3, 4]"]
  from total ld p fp ll obtain out st' where
    run: "kmeans_train_and_save own_cluster 5 42 True ?st = (Inr out, st')"
    and cl: "map Cluster (rows out) = map Some [0, 1, 2, 3, 4]"
    by blast
  from kmeans_segment_outside_map_is_null[of own_cluster 5 42 True "?st" out st'] run
  have seg: "\<forall>r \<in> set (rows out).
          Segment r = (case Cluster r of None \<Rightarrow> None | Some k \<Rightarrow> map_of DEFAULT_SEGMENT_MAP k)"
    and saved: "rfm_parquet st' = Some out"
    by blast+
  from seg have "map Segment (rows out) =
      map (\<lambda>c. case c of None \<Rightarrow> None | Some k \<Rightarrow> map_of DEFAULT_SEGMENT_MAP k)
        (map Cluster (rows out))"
    by (simp add: comp_def)
  then have sg: "map Segment (rows out) =
       [Some ''High Value'', Some ''Loyal'', Some ''At Risk'', Some ''Low Value'', None]"
    unfolding cl by (simp add: DEFAULT_SEGMENT_MAP_def)
  from run obtain rfm1 lb where "out = set_Segment rfm1"
    and "set_Cluster lb (compute_rfm ?df) = Inr rfm1"
    using ld by (auto elim!: kmeans_run_Inr)
  then have "map CustomerID (rows out) = map CustomerID (rows (compute_rfm ?df))"
    by (auto simp: set_Segment_def set_Cluster_def comp_def split: if_splits
        intro!: nth_equalityI)
  with example5_customers have cu: "map CustomerID (rows out) = [12345, 12346, 12347, 12348, 12349]"
    by simp
  from run cu cl sg saved show ?thesis by auto
qed

section \<open>Properties of the query service\<close>

lemma get_rfm_df_absent:
  "rfm_parquet st = None \<Longrightarrow> get_rfm_df st None = (None, None)"
  by (simp add: get_rfm_df_def)

lemma get_rfm_df_available:
  assumes "rfm_df \<noteq> None \<or> rfm_parquet st \<noteq> None"
  shows "\<exists>rfm. get_rfm_df st rfm_df = (Some rfm, Some rfm)"
  using assms by (auto simp: get_rfm_df_def split: option.splits)

text \<open>
  C2, as stated, fails: in a process that has not loaded the dataset, with no dataset
  file, the request for \<open>abc\<close> (on which \<open>float\<close> raises) is answered with 503, not
  400, since the guard on the dataset comes before the \<open>try\<close> around \<open>float\<close>.
\<close>

theorem non_numeric_id_without_dataset_is_503:
  "example_float ''abc'' = None \<and> rfm_parquet empty_store = None \<and>
   analytics_customer example_float empty_store None ''abc'' = (Inr (503, NO_DATA), None)"
  by (simp add: example_float_def empty_store_def analytics_customer_def get_rfm_df_def)

text \<open>
  C2, amended. Whatever function \<open>float\<close> is: a request to
  \<open>/analytics/customer/<id>\<close> on whose \<open>id\<close> it raises \<open>ValueError\<close> is answered with 400
  whenever the dataset is available to the process (it is cached, or its file exists);
  when the dataset is not available (nothing cached and no file) the answer is 503
  whatever the \<open>id\<close> is.
\<close>

theorem customer_non_numeric:
  "(py_float customer_id = None \<longrightarrow> (rfm_df \<noteq> None \<or> rfm_parquet st \<noteq> None) \<longrightarrow>
      fst (analytics_customer py_float st rfm_df customer_id) =
        Inr (400, JObj [(''error'', JStr ''customer_id must be numeric'')])) \<and>
   (rfm_df = None \<longrightarrow> rfm_parquet st = None \<longrightarrow>
      analytics_customer py_float st rfm_df customer_id = (Inr (503, NO_DATA), None))"
proof (intro conjI impI)
  assume "py_float customer_id = None" and "rfm_df \<noteq> None \<or> rfm_parquet st \<noteq> None"
  then show "fst (analytics_customer py_float st rfm_df customer_id) =
        Inr (400, JObj [(''error'', JStr ''customer_id must be numeric'')])"
    using get_rfm_df_available[of rfm_df st] by (auto simp: analytics_customer_def)
next
  assume "rfm_df = None" and "rfm_parquet st = None"
  then show "analytics_customer py_float st rfm_df customer_id = (Inr (503, NO_DATA), None)"
    by (simp add: analytics_customer_def get_rfm_df_absent)
qed

theorem customer_non_numeric_witness:
  "example_float ''abc'' = None \<and>
   fst (analytics_customer example_float example_store None ''abc'') =
     Inr (400, JObj [(''error'', JStr ''customer_id must be numeric'')]) \<and>
   fst (analytics_customer example_float empty_store (Some example_cached) ''abc'') =
     Inr (400, JObj [(''error'', JStr ''customer_id must be numeric'')]) \<and>
   analytics_customer example_float empty_store None ''abc'' = (Inr (503, NO_DATA), None)"
proof -
  have f: "example_float ''abc'' = None" by (simp add: example_float_def)
  have a: "rfm_parquet example_store \<noteq> None" by (simp add: example_store_def)
  have b: "rfm_parquet empty_store = None" by (simp add: empty_store_def)
  from customer_non_numeric[of example_float "''abc''" None example_store]
    customer_non_numeric[of example_float "''abc''" "Some example_cached" empty_store]
    customer_non_numeric[of example_float "''abc''" None empty_store] f a b
  show ?thesis by simp
qed

text \<open>
  C8, as stated, fails: a process that has loaded the dataset keeps the frame in
  \<open>_rfm_df\<close>, and \<open>get_rfm_df\<close> looks at the file only while that global is empty. A
  first request, served while the file exists, caches the frame; with the file gone
  afterwards, the overview and the customer endpoints answer 200 from the cached frame.
\<close>

theorem cached_frame_outlives_file:
  "snd (analytics_overview (empty_store\<lparr>rfm_parquet := Some example_cached\<rparr>) None) =
     Some example_cached \<and>
   rfm_parquet empty_store = None \<and>
   analytics_overview empty_store (Some example_cached) =
     (Inr (200, JObj [(''total_customers'', JInt 1),
                      (''segment_counts'', JObj [(''Loyal'', JInt 1)]),
                      (''segments'', JList [JStr ''Loyal''])]), Some example_cached) \<and>
   analytics_customer example_float empty_store (Some example_cached) ''17850'' =
     (Inr (200, JObj [(''CustomerID'', JNum 17850), (''Segment'', JStr ''Loyal''),
                      (''Cluster'', JInt 1), (''Recency'', JNum 5), (''Frequency'', JNum 3),
                      (''Monetary'', JNum (241 / 2))]), Some example_cached)"
  by (simp add: empty_store_def analytics_overview_def analytics_customer_def get_rfm_df_def
      example_cached_def value_counts_def example_float_def customer_out_def)

text \<open>
  C8, amended. When the dataset file is absent and the process holds no cached frame,
  each of the four read endpoints (overview, segments, summary, customer) returns 503
  with the error body, lets no exception escape and leaves the cache empty, so that the
  same holds for the next request.
\<close>

theorem missing_dataset_gives_503:
  assumes "rfm_parquet st = None"
  shows "analytics_overview st None = (Inr (503, NO_DATA), None) \<and>
         analytics_segments st None = (Inr (503, NO_DATA), None) \<and>
         analytics_summary st None = (Inr (503, NO_DATA), None) \<and>
         analytics_customer py_float st None customer_id = (Inr (503, NO_DATA), None)"
  using assms
  by (simp add: analytics_overview_def analytics_segments_def analytics_summary_def
      analytics_customer_def get_rfm_df_absent)

theorem missing_dataset_gives_503_witness:
  "rfm_parquet empty_store = None \<and>
   analytics_overview empty_store None = (Inr (503, NO_DATA), None) \<and>
   analytics_segments empty_store None = (Inr (503, NO_DATA), None) \<and>
   analytics_summary empty_store None = (Inr (503, NO_DATA), None) \<and>
   analytics_customer example_float empty_store None ''17850'' = (Inr (503, NO_DATA), None)"
proof -
  have h: "rfm_parquet empty_store = None" by (simp add: empty_store_def)
  from h missing_dataset_gives_503[OF h, of example_float "''17850''"] show ?thesis by simp
qed

end
